theory Spec2Isabelle
  imports Complex_Main
begin

section \<open>Numbers and decimal columns\<close>

text \<open>
  The settlement code computes with JavaScript numbers and stores money in
  \<^verbatim>\<open>decimal(_, 2)\<close> columns, which the driver hands over as text with two
  decimals (\<^verbatim>\<open>"100000.00"\<close>).  A finite number is modelled by the rational it
  stands for, a decimal column by its value in hundredths, an \<open>int\<close>;
  \<open>parseFloat\<close> reads such a column.

  \<^verbatim>\<open>x.toFixed(2)\<close> is the number of hundredths nearest to the double \<open>x\<close>.
  A double carries a binary rounding error, of relative size 2 to the power -53, which
  is not computed here.  It decides the result where the exact value lies halfway
  between two hundredths: the double the code holds is then, as a rule, not that value
  but one to either side of it (100.005 is held as 100.00499999999999545 and gives
  \<^verbatim>\<open>"100.00"\<close>).  What happens at such a tie is therefore taken from outside:
  \<open>up x\<close> says that the tie at the exact value \<open>x\<close> goes to the hundredth of
  larger magnitude, and every statement below is made for every \<open>up\<close>.  Away from
  ties the result is the nearest hundredth; this takes the exact value to lie further
  from a tie than the rounding error, as it does for prices of a few decimals and
  quantities of ordinary size.  The tie rule is a function of the exact value: two ties
  at the same exact value are taken to go the same way within one run.
\<close>

type_synonym ties = "rat \<Rightarrow> bool"

definition parseFloat :: "int \<Rightarrow> rat" where
  "parseFloat c = of_int c / 100"

definition toFixed2 :: "ties \<Rightarrow> rat \<Rightarrow> int" where
  "toFixed2 up x =
     (let m = \<lfloor>\<bar>x\<bar> * 100\<rfloor>;
          r = \<bar>x\<bar> * 100 - of_int m;
          n = (if r < 1 / 2 then m
               else if 1 / 2 < r then m + 1
               else if up x then m + 1 else m)
      in if 0 \<le> x then n else - n)"

text \<open>The two constant tie rules: every tie away from zero, every tie towards zero.\<close>

definition halfAway :: ties where
  "halfAway x = True"





text \<open>
  The average price of a position is a quotient and can be \<^verbatim>\<open>NaN\<close> (0/0) or
  \<^verbatim>\<open>\<plusminus>Infinity\<close> (x/0).  \<^verbatim>\<open>NaN.toFixed(2)\<close> is the text
  \<^verbatim>\<open>"NaN"\<close>, which a numeric column holds and \<^verbatim>\<open>parseFloat\<close> reads back as
  \<^verbatim>\<open>NaN\<close>; the text \<^verbatim>\<open>"Infinity"\<close> is refused by a \<^verbatim>\<open>numeric(10,2)\<close>
  column.  So the two decimal columns of a position hold a \<open>decimal\<close>, and the
  numbers of the position arithmetic are a \<open>number\<close> (the sign of an infinity plays
  no part).
\<close>

datatype number = Finite rat | NaN | Infinite

datatype decimal = Decimal int | NaN_text

fun js_times :: "rat \<Rightarrow> number \<Rightarrow> number" where
  "js_times a (Finite b) = Finite (a * b)"
| "js_times a NaN = NaN"
| "js_times a Infinite = (if a = 0 then NaN else Infinite)"

fun js_plus :: "number \<Rightarrow> rat \<Rightarrow> number" where
  "js_plus (Finite a) b = Finite (a + b)"
| "js_plus NaN b = NaN"
| "js_plus Infinite b = Infinite"

fun js_divide :: "number \<Rightarrow> int \<Rightarrow> number" where
  "js_divide (Finite a) n =
     (if n = 0 then (if a = 0 then NaN else Infinite) else Finite (a / of_int n))"
| "js_divide NaN n = NaN"
| "js_divide Infinite n = Infinite"

fun parseFloatD :: "decimal \<Rightarrow> number" where
  "parseFloatD (Decimal c) = Finite (parseFloat c)"
| "parseFloatD NaN_text = NaN"

text \<open>\<open>None\<close> is the text \<^verbatim>\<open>"Infinity"\<close>, which no decimal column holds.\<close>

fun toFixed2D :: "ties \<Rightarrow> number \<Rightarrow> decimal option" where
  "toFixed2D up (Finite x) = Some (Decimal (toFixed2 up x))"
| "toFixed2D up NaN = Some NaN_text"
| "toFixed2D up Infinite = None"

section \<open>Tables of \<^verbatim>\<open>shared/schema.ts\<close>\<close>

text \<open>
  One record per table row.  Timestamps are natural numbers.  Of a stock only the
  columns read by the order routes are kept (the OHLC and volume columns are not).
\<close>

record user =
  u_id :: int
  u_username :: string
  u_password :: string
  u_balance :: int

record stock =
  s_id :: int
  s_symbol :: string
  s_exchange :: string
  s_name :: string
  s_currentPrice :: int

record order =
  o_id :: int
  o_userId :: int
  o_symbol :: string
  o_exchange :: string
  o_orderType :: string
  o_quantity :: int
  o_limitPrice :: int
  o_takeProfitType :: "string option"
  o_takeProfitValue :: "int option"
  o_stopLossType :: "string option"
  o_stopLossValue :: "int option"
  o_status :: string
  o_executedPrice :: "int option"
  o_executedAt :: "nat option"
  o_createdAt :: nat

record position =
  p_id :: int
  p_userId :: int
  p_symbol :: string
  p_exchange :: string
  p_quantity :: int
  p_averagePrice :: decimal
  p_currentValue :: decimal
  p_unrealizedPnL :: int
  p_createdAt :: nat
  p_updatedAt :: nat

record trade =
  t_id :: int
  t_userId :: int
  t_orderId :: int
  t_symbol :: string
  t_exchange :: string
  t_tradeType :: string
  t_quantity :: int
  t_price :: int
  t_totalValue :: int
  t_executedAt :: nat

text \<open>
  The database: each table is the list of its rows in scan order (a query's first
  row is the first match in the list), the \<^verbatim>\<open>serial\<close> columns draw from
  counters, and \<open>clock\<close> is what \<^verbatim>\<open>new Date()\<close> reads.
\<close>

record store =
  users :: "user list"
  stocks :: "stock list"
  orders :: "order list"
  positions :: "position list"
  trades :: "trade list"
  nextOrderId :: int
  nextPositionId :: int
  nextTradeId :: int
  clock :: nat

section \<open>\<^verbatim>\<open>DatabaseStorage\<close> of \<^verbatim>\<open>server/storage.ts\<close>\<close>

definition getUser :: "store \<Rightarrow> int \<Rightarrow> user option" where
  "getUser s ident = find (\<lambda>u. u_id u = ident) (users s)"

definition updateUserBalance :: "ties \<Rightarrow> int \<Rightarrow> rat \<Rightarrow> store \<Rightarrow> store" where
  "updateUserBalance up userId balance s =
     s\<lparr>users := map (\<lambda>u. if u_id u = userId then u\<lparr>u_balance := toFixed2 up balance\<rparr> else u)
                    (users s)\<rparr>"






definition getOrder :: "store \<Rightarrow> int \<Rightarrow> order option" where
  "getOrder s ident = find (\<lambda>ord. o_id ord = ident) (orders s)"


text \<open>
  \<^verbatim>\<open>executedPrice ? executedPrice.toFixed(2) : null\<close>: a missing price and the
  price 0 are both falsy and leave the executed price and time null.
\<close>

definition updateOrderStatus ::
  "ties \<Rightarrow> int \<Rightarrow> string \<Rightarrow> rat option \<Rightarrow> store \<Rightarrow> store" where
  "updateOrderStatus up orderId status executedPrice s =
     (let truthy = (case executedPrice of None \<Rightarrow> False | Some p \<Rightarrow> p \<noteq> 0) in
      s\<lparr>orders := map (\<lambda>ord. if o_id ord = orderId
                        then ord\<lparr>o_status := status,
                                 o_executedPrice :=
                                   (if truthy then map_option (toFixed2 up) executedPrice
                                    else None),
                                 o_executedAt := (if truthy then Some (clock s) else None)\<rparr>
                        else ord) (orders s)\<rparr>)"

definition cancelOrder :: "int \<Rightarrow> store \<Rightarrow> store" where
  "cancelOrder orderId s =
     s\<lparr>orders := map (\<lambda>ord. if o_id ord = orderId then ord\<lparr>o_status := ''CANCELLED''\<rparr> else ord)
                     (orders s)\<rparr>"

definition getPosition :: "store \<Rightarrow> int \<Rightarrow> string \<Rightarrow> string \<Rightarrow> position option" where
  "getPosition s userId symbol exchange =
     find (\<lambda>p. p_userId p = userId \<and> p_symbol p = symbol \<and> p_exchange p = exchange)
          (positions s)"

definition createPosition ::
  "ties \<Rightarrow> string \<Rightarrow> string \<Rightarrow> int \<Rightarrow> int \<Rightarrow> int \<Rightarrow> store \<Rightarrow> store" where
  "createPosition up symbol exchange quantity averagePrice userId s =
     s\<lparr>positions := positions s @
          [\<lparr>p_id = nextPositionId s, p_userId = userId, p_symbol = symbol,
            p_exchange = exchange, p_quantity = quantity,
            p_averagePrice = Decimal averagePrice,
            p_currentValue =
              Decimal (toFixed2 up (of_int quantity * parseFloat averagePrice)),
            p_unrealizedPnL = 0, p_createdAt = clock s, p_updatedAt = clock s\<rparr>],
       nextPositionId := nextPositionId s + 1\<rparr>"

text \<open>
  \<open>None\<close>: the average price is infinite, the database refuses its text and the call
  throws.
\<close>

definition updatePosition :: "ties \<Rightarrow> int \<Rightarrow> int \<Rightarrow> number \<Rightarrow> store \<Rightarrow> store option" where
  "updatePosition up positionId quantity averagePrice s =
     (case (toFixed2D up averagePrice,
            toFixed2D up (js_times (of_int quantity) averagePrice)) of
        (Some average, Some currentValue) \<Rightarrow>
          Some (s\<lparr>positions := map (\<lambda>p. if p_id p = positionId
                                        then p\<lparr>p_quantity := quantity,
                                               p_averagePrice := average,
                                               p_currentValue := currentValue,
                                               p_updatedAt := clock s\<rparr>
                                        else p) (positions s)\<rparr>)
      | _ \<Rightarrow> None)"

definition deletePosition :: "int \<Rightarrow> store \<Rightarrow> store" where
  "deletePosition positionId s =
     s\<lparr>positions := filter (\<lambda>p. p_id p \<noteq> positionId) (positions s)\<rparr>"

definition createTrade ::
  "int \<Rightarrow> string \<Rightarrow> string \<Rightarrow> string \<Rightarrow> int \<Rightarrow> int \<Rightarrow> int \<Rightarrow> int \<Rightarrow> store \<Rightarrow> store" where
  "createTrade orderId symbol exchange tradeType quantity price totalValue userId s =
     s\<lparr>trades := trades s @
          [\<lparr>t_id = nextTradeId s, t_userId = userId, t_orderId = orderId, t_symbol = symbol,
            t_exchange = exchange, t_tradeType = tradeType, t_quantity = quantity,
            t_price = price, t_totalValue = totalValue, t_executedAt = clock s\<rparr>],
       nextTradeId := nextTradeId s + 1\<rparr>"

section \<open>\<^verbatim>\<open>MemStorage.cancelOrder\<close>\<close>

text \<open>The in-memory store keeps its orders in a \<^verbatim>\<open>Map\<close> from id to order.\<close>

definition MemStorage_cancelOrder :: "(int \<rightharpoonup> order) \<Rightarrow> int \<Rightarrow> (int \<rightharpoonup> order)" where
  "MemStorage_cancelOrder m orderId =
     (case m orderId of
        None \<Rightarrow> m
      | Some ord \<Rightarrow> m(orderId \<mapsto> ord\<lparr>o_status := ''CANCELLED''\<rparr>))"

section \<open>Failing store operations\<close>

text \<open>
  Every storage call is a database round trip that may throw.  Which calls throw is
  given from outside as a predicate on the operation; a call that throws changes
  nothing.  \<open>reliable\<close> is the database on which no call throws, \<open>failing op\<close>
  the one on which exactly the call \<open>op\<close> does.  A rounded amount too large for its
  column is such a throwing call.  Two refusals are written out in the operations
  themselves: an order row whose values the \<^verbatim>\<open>orders\<close> table does not take
  (\<open>createOrder\<close>), and an infinite average price (\<open>updatePosition\<close>).
\<close>

datatype store_op =
    GetUser | UpdateUserBalance | GetStock | CreateOrder | GetOrder | GetActiveOrders
  | UpdateOrderStatus | GetPosition | CreatePosition | UpdatePosition | DeletePosition
  | CreateTrade

definition reliable :: "store_op \<Rightarrow> bool" where
  "reliable op = False"


section \<open>\<^verbatim>\<open>executeOrder\<close>\<close>

text \<open>
  The balance step, written twice in the source (once per side) with the sign of
  \<open>totalValue\<close> as the only difference; \<open>delta\<close> is \<open>- totalValue\<close> for a
  BUY and \<open>totalValue\<close> for a SELL.
\<close>

definition settleBalance ::
  "ties \<Rightarrow> (store_op \<Rightarrow> bool) \<Rightarrow> int \<Rightarrow> rat \<Rightarrow> store \<Rightarrow> store" where
  "settleBalance up fails userId delta s =
     (if fails GetUser then s
      else case getUser s userId of
        None \<Rightarrow> s
      | Some user \<Rightarrow>
          if fails UpdateUserBalance then s
          else updateUserBalance up userId (parseFloat (u_balance user) + delta) s)"

text \<open>
  The whole body runs inside \<^verbatim>\<open>try { ... } catch { console.error }\<close> with no
  transaction: a call that throws ends the function and keeps what the earlier calls
  wrote.
\<close>

definition executeOrder ::
  "ties \<Rightarrow> (store_op \<Rightarrow> bool) \<Rightarrow> int \<Rightarrow> rat \<Rightarrow> store \<Rightarrow> store" where
  "executeOrder up fails orderId executionPrice s =
     (if fails GetOrder then s
      else case getOrder s orderId of
        None \<Rightarrow> s
      | Some ord \<Rightarrow>
          if o_status ord \<noteq> ''PENDING'' then s
          else if fails UpdateOrderStatus then s
          else
            let s1 = updateOrderStatus up orderId ''EXECUTED'' (Some executionPrice) s;
                totalValue = of_int (o_quantity ord) * executionPrice
            in if fails CreateTrade then s1
            else
              let s2 = createTrade (o_id ord) (o_symbol ord) (o_exchange ord) (o_orderType ord)
                         (o_quantity ord) (toFixed2 up executionPrice)
                         (toFixed2 up totalValue) (o_userId ord) s1
              in if fails GetPosition then s2
              else
                let existingPosition =
                      getPosition s2 (o_userId ord) (o_symbol ord) (o_exchange ord)
                in if o_orderType ord = ''BUY'' then
                     (case existingPosition of
                        Some ep \<Rightarrow>
                          let newQuantity = p_quantity ep + o_quantity ord;
                              newAveragePrice =
                                js_divide
                                  (js_plus
                                     (js_times (of_int (p_quantity ep))
                                        (parseFloatD (p_averagePrice ep)))
                                     (of_int (o_quantity ord) * executionPrice))
                                  newQuantity
                          in if fails UpdatePosition then s2
                             else
                               (case updatePosition up (p_id ep) newQuantity newAveragePrice s2 of
                                  None \<Rightarrow> s2
                                | Some s3 \<Rightarrow>
                                    settleBalance up fails (o_userId ord) (- totalValue) s3)
                      | None \<Rightarrow>
                          if fails CreatePosition then s2
                          else settleBalance up fails (o_userId ord) (- totalValue)
                                 (createPosition up (o_symbol ord) (o_exchange ord)
                                    (o_quantity ord) (toFixed2 up executionPrice)
                                    (o_userId ord) s2))
                   else if o_orderType ord = ''SELL'' \<and> existingPosition \<noteq> None then
                     (case existingPosition of
                        None \<Rightarrow> s2
                      | Some ep \<Rightarrow>
                          let newQuantity = p_quantity ep - o_quantity ord
                          in if newQuantity \<le> 0 then
                               (if fails DeletePosition then s2
                                else settleBalance up fails (o_userId ord) totalValue
                                       (deletePosition (p_id ep) s2))
                             else
                               (if fails UpdatePosition then s2
                                else
                                  (case updatePosition up (p_id ep) newQuantity
                                          (parseFloatD (p_averagePrice ep)) s2 of
                                     None \<Rightarrow> s2
                                   | Some s3 \<Rightarrow>
                                       settleBalance up fails (o_userId ord) totalValue s3)))
                   else s2)"

section \<open>The order routes\<close>











section \<open>The execution condition as the specification words it\<close>




section \<open>A small database for examples\<close>

text \<open>
  The demo user and the first stock of \<^verbatim>\<open>init-db.ts\<close>, with the given orders and
  positions of that user in that stock, and a request body for an order on the NSE;
  a table of four orders, and a quote source that knows the first stock only.
\<close>

definition demoUser :: user where
  "demoUser = \<lparr>u_id = 1, u_username = ''demo'', u_password = ''demo123'',
                u_balance = 10000000\<rparr>"

definition demoStock :: stock where
  "demoStock = \<lparr>s_id = 1, s_symbol = ''RELIANCE'', s_exchange = ''NSE'',
                 s_name = ''Reliance Industries Limited'', s_currentPrice = 245675\<rparr>"

definition demoOrder :: "string \<Rightarrow> int \<Rightarrow> int \<Rightarrow> string \<Rightarrow> order" where
  "demoOrder orderType quantity limitPrice status =
     \<lparr>o_id = 1, o_userId = 1, o_symbol = ''RELIANCE'', o_exchange = ''NSE'',
      o_orderType = orderType, o_quantity = quantity, o_limitPrice = limitPrice,
      o_takeProfitType = None, o_takeProfitValue = None, o_stopLossType = None,
      o_stopLossValue = None, o_status = status, o_executedPrice = None,
      o_executedAt = None, o_createdAt = 0\<rparr>"

definition demoPosition :: "int \<Rightarrow> int \<Rightarrow> position" where
  "demoPosition quantity averagePrice =
     \<lparr>p_id = 1, p_userId = 1, p_symbol = ''RELIANCE'', p_exchange = ''NSE'',
      p_quantity = quantity, p_averagePrice = Decimal averagePrice,
      p_currentValue = Decimal (quantity * averagePrice), p_unrealizedPnL = 0,
      p_createdAt = 0, p_updatedAt = 0\<rparr>"

definition demoStore :: "order list \<Rightarrow> position list \<Rightarrow> store" where
  "demoStore os ps =
     \<lparr>users = [demoUser], stocks = [demoStock], orders = os, positions = ps, trades = [],
      nextOrderId = 2, nextPositionId = 2, nextTradeId = 1, clock = 7\<rparr>"




section \<open>Facts about numbers and lists\<close>

lemmas demo_defs = demoStore_def demoOrder_def demoPosition_def demoUser_def demoStock_def


lemma toFixed2_parseFloat: "toFixed2 up (parseFloat c) = c"
proof -
  have a: "\<bar>of_int c / 100 :: rat\<bar> * 100 = of_int \<bar>c\<bar>" by simp
  show ?thesis
    unfolding toFixed2_def parseFloat_def a by (simp add: Let_def)
qed



lemma toFixed2_times_exact: "toFixed2 up (of_int q * parseFloat c) = q * c"
proof -
  have "of_int q * parseFloat c = parseFloat (q * c)"
    by (simp add: parseFloat_def)
  then show ?thesis by (simp only: toFixed2_parseFloat)
qed










lemma toFixed2D_parseFloatD: "toFixed2D up (parseFloatD d) = Some d"
  by (cases d) (simp_all add: toFixed2_parseFloat)

lemma parseFloatD_not_Infinite: "parseFloatD d \<noteq> Infinite"
  by (cases d) simp_all

lemma js_times_parseFloatD_not_Infinite: "js_times a (parseFloatD d) \<noteq> Infinite"
  by (cases d) simp_all

lemma find_map_cong:
  assumes "\<And>x. P (f x) = P x"
  shows "find P (map f xs) = map_option f (find P xs)"
  using assms by (induction xs) auto

lemma find_Some_holds: "find P xs = Some x \<Longrightarrow> P x"
  by (induction xs) (auto split: if_splits)



section \<open>Facts about the store operations\<close>

lemma getOrder_id: "getOrder s orderId = Some ord \<Longrightarrow> o_id ord = orderId"
  unfolding getOrder_def by (drule find_Some_holds) simp

lemma getOrder_cong: "orders s' = orders s \<Longrightarrow> getOrder s' = getOrder s"
  by (simp add: getOrder_def fun_eq_iff)


lemma getOrder_updateOrderStatus:
  "getOrder (updateOrderStatus up orderId status price s) ident =
     map_option (\<lambda>ord. if o_id ord = orderId
                        then ord\<lparr>o_status := status,
                                 o_executedPrice :=
                                   (if price \<noteq> None \<and> price \<noteq> Some 0
                                    then map_option (toFixed2 up) price else None),
                                 o_executedAt :=
                                   (if price \<noteq> None \<and> price \<noteq> Some 0
                                    then Some (clock s) else None)\<rparr>
                        else ord) (getOrder s ident)"
  unfolding getOrder_def updateOrderStatus_def
  by (cases price) (simp_all add: find_map_cong)

lemma getOrder_cancelOrder:
  "getOrder (cancelOrder orderId s) ident =
     map_option (\<lambda>ord. if o_id ord = orderId then ord\<lparr>o_status := ''CANCELLED''\<rparr> else ord)
       (getOrder s ident)"
  unfolding getOrder_def cancelOrder_def by (simp add: find_map_cong)






lemma updatePosition_Some:
  "averagePrice \<noteq> Infinite \<Longrightarrow>
   updatePosition up positionId quantity averagePrice s =
     Some (s\<lparr>positions := map (\<lambda>p. if p_id p = positionId
                                   then p\<lparr>p_quantity := quantity,
                                          p_averagePrice := the (toFixed2D up averagePrice),
                                          p_currentValue :=
                                            the (toFixed2D up
                                                   (js_times (of_int quantity) averagePrice)),
                                          p_updatedAt := clock s\<rparr>
                                   else p) (positions s)\<rparr>)"
  by (cases averagePrice) (simp_all add: updatePosition_def)

lemma updatePosition_None:
  "updatePosition up positionId quantity Infinite s = None"
  by (simp add: updatePosition_def)


lemma updatePosition_frame:
  assumes "updatePosition up pid q a s = Some s'"
  shows "orders s' = orders s" "trades s' = trades s" "users s' = users s"
    "nextTradeId s' = nextTradeId s" "clock s' = clock s"
  using assms by (auto simp: updatePosition_def split: option.splits prod.splits)

lemma getPosition_updatePosition:
  assumes "updatePosition up pid q a s = Some s'"
  shows "getPosition s' userId symbol exchange =
     map_option (\<lambda>p. if p_id p = pid
                           then p\<lparr>p_quantity := q,
                                  p_averagePrice := the (toFixed2D up a),
                                  p_currentValue := the (toFixed2D up (js_times (of_int q) a)),
                                  p_updatedAt := clock s\<rparr>
                           else p) (getPosition s userId symbol exchange)"
proof -
  have "a \<noteq> Infinite" using assms by (auto simp: updatePosition_None)
  from updatePosition_Some[OF this, of up pid q s] assms
  have "s' = s\<lparr>positions := map (\<lambda>p. if p_id p = pid
                                   then p\<lparr>p_quantity := q,
                                          p_averagePrice := the (toFixed2D up a),
                                          p_currentValue :=
                                            the (toFixed2D up (js_times (of_int q) a)),
                                          p_updatedAt := clock s\<rparr>
                                   else p) (positions s)\<rparr>" by simp
  then show ?thesis
    unfolding getPosition_def by (simp add: find_map_cong)
qed

lemma settleBalance_frame [simp]:
  "orders (settleBalance up fails userId delta s) = orders s"
  "trades (settleBalance up fails userId delta s) = trades s"
  "positions (settleBalance up fails userId delta s) = positions s"
  "nextTradeId (settleBalance up fails userId delta s) = nextTradeId s"
  by (simp_all add: settleBalance_def updateUserBalance_def split: option.splits)

lemma position_ops_frame [simp]:
  "orders (deletePosition pid s) = orders s"
  "trades (deletePosition pid s) = trades s"
  "users (deletePosition pid s) = users s"
  "orders (createPosition up sy ex q c u s) = orders s"
  "trades (createPosition up sy ex q c u s) = trades s"
  "users (createPosition up sy ex q c u s) = users s"
  by (simp_all add: deletePosition_def createPosition_def)

lemma createTrade_frame [simp]:
  "orders (createTrade oid sy ex ty q p tv u s) = orders s"
  "users (createTrade oid sy ex ty q p tv u s) = users s"
  "positions (createTrade oid sy ex ty q p tv u s) = positions s"
  "clock (createTrade oid sy ex ty q p tv u s) = clock s"
  by (simp_all add: createTrade_def)

lemma updateOrderStatus_frame [simp]:
  "trades (updateOrderStatus up oid st p s) = trades s"
  "users (updateOrderStatus up oid st p s) = users s"
  "positions (updateOrderStatus up oid st p s) = positions s"
  "clock (updateOrderStatus up oid st p s) = clock s"
  "nextTradeId (updateOrderStatus up oid st p s) = nextTradeId s"
  by (simp_all add: updateOrderStatus_def Let_def)

lemma getPosition_frame [simp]:
  "getPosition (createTrade oid sy ex ty q p tv u s) = getPosition s"
  "getPosition (updateOrderStatus up oid st pr s) = getPosition s"
  "getPosition (settleBalance up fails userId delta s) = getPosition s"
  by (simp_all add: getPosition_def fun_eq_iff)

lemma getUser_frame [simp]:
  "getUser (createTrade oid sy ex ty q p tv u s) = getUser s"
  "getUser (updateOrderStatus up oid st pr s) = getUser s"
  "getUser (deletePosition pid s) = getUser s"
  "getUser (createPosition up sy ex q c u s) = getUser s"
  by (simp_all add: getUser_def fun_eq_iff)




section \<open>Facts about \<^verbatim>\<open>executeOrder\<close>\<close>

lemma executeOrder_noop:
  "getOrder s orderId = None \<or>
   (\<exists>ord. getOrder s orderId = Some ord \<and> o_status ord \<noteq> ''PENDING'')
   \<Longrightarrow> executeOrder up fails orderId price s = s"
  by (auto simp: executeOrder_def)

lemma executeOrder_orders:
  assumes "getOrder s orderId = Some ord" "o_status ord = ''PENDING''"
    "\<not> fails GetOrder" "\<not> fails UpdateOrderStatus"
  shows "orders (executeOrder up fails orderId price s) =
         orders (updateOrderStatus up orderId ''EXECUTED'' (Some price) s)"
  using assms
  by (simp add: executeOrder_def Let_def updatePosition_frame split: option.splits)

lemma executeOrder_trades:
  assumes "getOrder s orderId = Some ord" "o_status ord = ''PENDING''"
    "\<not> fails GetOrder" "\<not> fails UpdateOrderStatus" "\<not> fails CreateTrade"
  shows "trades (executeOrder up fails orderId price s) =
         trades s @ [\<lparr>t_id = nextTradeId s, t_userId = o_userId ord, t_orderId = o_id ord,
            t_symbol = o_symbol ord, t_exchange = o_exchange ord,
            t_tradeType = o_orderType ord, t_quantity = o_quantity ord,
            t_price = toFixed2 up price,
            t_totalValue = toFixed2 up (of_int (o_quantity ord) * price),
            t_executedAt = clock s\<rparr>]"
proof -
  have u: "updatePosition up pid q a s2 = Some s3 \<Longrightarrow> trades s3 = trades s2" for pid q a s2 s3
    by (rule updatePosition_frame)
  show ?thesis
    using assms
    by (auto simp add: executeOrder_def Let_def u split: option.splits)
       (simp_all add: createTrade_def)
qed

lemma executeOrder_status:
  assumes "getOrder s orderId = Some ord" "o_status ord = ''PENDING''"
    "\<not> fails GetOrder" "\<not> fails UpdateOrderStatus"
  shows "map_option o_status (getOrder (executeOrder up fails orderId price s) orderId)
         = Some ''EXECUTED''"
proof -
  have "getOrder (executeOrder up fails orderId price s) =
        getOrder (updateOrderStatus up orderId ''EXECUTED'' (Some price) s)"
    by (rule getOrder_cong) (rule executeOrder_orders[OF assms])
  then show ?thesis
    using assms(1) getOrder_id[OF assms(1)] by (simp add: getOrder_updateOrderStatus)
qed

lemma executeOrder_orders_cases:
  "orders (executeOrder up fails orderId price s) = orders s \<or>
   ((\<exists>ord. getOrder s orderId = Some ord \<and> o_status ord = ''PENDING'') \<and>
    orders (executeOrder up fails orderId price s) =
      orders (updateOrderStatus up orderId ''EXECUTED'' (Some price) s))"
proof (cases "fails GetOrder \<or> fails UpdateOrderStatus")
  case True
  then have "executeOrder up fails orderId price s = s"
    by (auto simp: executeOrder_def split: option.splits)
  then show ?thesis by simp
next
  case False
  show ?thesis
  proof (cases "getOrder s orderId")
    case None
    then show ?thesis by (simp add: executeOrder_noop)
  next
    case (Some ord)
    show ?thesis
    proof (cases "o_status ord = ''PENDING''")
      case True
      with Some False show ?thesis
        using executeOrder_orders[of s orderId ord fails up price] by simp
    next
      case False
      with Some show ?thesis by (simp add: executeOrder_noop)
    qed
  qed
qed

lemma executeOrder_other:
  assumes "ident \<noteq> orderId"
  shows "getOrder (executeOrder up fails orderId price s) ident = getOrder s ident"
proof -
  from executeOrder_orders_cases[of up fails orderId price s]
  show ?thesis
  proof
    assume "orders (executeOrder up fails orderId price s) = orders s"
    then show ?thesis by (simp add: getOrder_def)
  next
    assume "(\<exists>ord. getOrder s orderId = Some ord \<and> o_status ord = ''PENDING'') \<and>
      orders (executeOrder up fails orderId price s) =
      orders (updateOrderStatus up orderId ''EXECUTED'' (Some price) s)"
    then have e: "getOrder (executeOrder up fails orderId price s) ident =
       getOrder (updateOrderStatus up orderId ''EXECUTED'' (Some price) s) ident"
      by (simp add: getOrder_def)
    show ?thesis
    proof (cases "getOrder s ident")
      case None
      then show ?thesis unfolding e by (simp add: getOrder_updateOrderStatus)
    next
      case (Some x)
      then have "o_id x = ident" by (rule getOrder_id)
      then show ?thesis unfolding e using Some assms
        by (simp add: getOrder_updateOrderStatus)
    qed
  qed
qed

lemma executeOrder_keeps_settled:
  assumes "getOrder s ident = Some ord" "o_status ord \<noteq> ''PENDING''"
  shows "getOrder (executeOrder up fails orderId price s) ident = Some ord"
proof (cases "ident = orderId")
  case True
  with assms show ?thesis by (simp add: executeOrder_noop)
next
  case False
  then show ?thesis using assms(1) by (simp add: executeOrder_other)
qed





lemma executeOrder_sell_existing:
  assumes "getOrder s orderId = Some ord" "o_status ord = ''PENDING''"
    "o_orderType ord = ''SELL''"
    "getPosition s (o_userId ord) (o_symbol ord) (o_exchange ord) = Some ep"
  shows "executeOrder up reliable orderId price s =
         (let s2 = createTrade (o_id ord) (o_symbol ord) (o_exchange ord) (o_orderType ord)
                 (o_quantity ord) (toFixed2 up price)
                 (toFixed2 up (of_int (o_quantity ord) * price))
                 (o_userId ord) (updateOrderStatus up orderId ''EXECUTED'' (Some price) s)
          in if p_quantity ep - o_quantity ord \<le> 0
             then settleBalance up reliable (o_userId ord) (of_int (o_quantity ord) * price)
                    (deletePosition (p_id ep) s2)
             else (case updatePosition up (p_id ep) (p_quantity ep - o_quantity ord)
                          (parseFloatD (p_averagePrice ep)) s2 of
                     None \<Rightarrow> s2
                   | Some s3 \<Rightarrow>
                       settleBalance up reliable (o_userId ord)
                         (of_int (o_quantity ord) * price) s3))"
  using assms by (simp add: executeOrder_def reliable_def Let_def)



section \<open>Facts about the background process and the order route\<close>









section \<open>Settlement is idempotent\<close>

text \<open>
  C1.  For every order id and execution price, \<open>executeOrder\<close> leaves the database
  as it is, whichever store calls would fail, when the order does not exist or its
  status is not PENDING.  So for a PENDING order, settled once on a database where no
  call fails, a second settlement (with any price, any tie rule and any failures)
  changes nothing: after both the order is EXECUTED and the trades are those from before
  followed by one trade with the order's id, quantity and side, which makes the number
  of trades of that order one more than before.
\<close>

theorem settle_idempotent:
  "(getOrder s orderId = None \<or>
      (\<exists>ord. getOrder s orderId = Some ord \<and> o_status ord \<noteq> ''PENDING'')
     \<longrightarrow> executeOrder up fails orderId price s = s)
   \<and> (getOrder s orderId = Some ord \<and> o_status ord = ''PENDING'' \<longrightarrow>
        (let s1 = executeOrder up reliable orderId price s;
             s2 = executeOrder up' fails orderId price' s1
         in s2 = s1
            \<and> map_option o_status (getOrder s1 orderId) = Some ''EXECUTED''
            \<and> (\<exists>t. trades s2 = trades s @ [t] \<and> t_orderId t = o_id ord
                     \<and> t_quantity t = o_quantity ord \<and> t_tradeType t = o_orderType ord)
            \<and> length (filter (\<lambda>t. t_orderId t = orderId) (trades s2)) =
                length (filter (\<lambda>t. t_orderId t = orderId) (trades s)) + 1))"
proof (intro conjI impI)
  assume "getOrder s orderId = None \<or>
      (\<exists>ord. getOrder s orderId = Some ord \<and> o_status ord \<noteq> ''PENDING'')"
  then show "executeOrder up fails orderId price s = s" by (rule executeOrder_noop)
next
  assume a: "getOrder s orderId = Some ord \<and> o_status ord = ''PENDING''"
  define s1 where "s1 = executeOrder up reliable orderId price s"
  have r: "\<not> reliable GetOrder" "\<not> reliable UpdateOrderStatus" "\<not> reliable CreateTrade"
    by (simp_all add: reliable_def)
  have oid: "o_id ord = orderId" using a getOrder_id by blast
  have st: "map_option o_status (getOrder s1 orderId) = Some ''EXECUTED''"
    unfolding s1_def using a r by (intro executeOrder_status[of _ _ ord]) simp_all
  have tr: "trades s1 = trades s @ [\<lparr>t_id = nextTradeId s, t_userId = o_userId ord,
            t_orderId = o_id ord, t_symbol = o_symbol ord, t_exchange = o_exchange ord,
            t_tradeType = o_orderType ord, t_quantity = o_quantity ord,
            t_price = toFixed2 up price,
            t_totalValue = toFixed2 up (of_int (o_quantity ord) * price),
            t_executedAt = clock s\<rparr>]"
    unfolding s1_def using a r by (intro executeOrder_trades) simp_all
  have noop: "executeOrder up' fails orderId price' s1 = s1"
    using st by (intro executeOrder_noop) (cases "getOrder s1 orderId"; simp)
  show "let s1 = executeOrder up reliable orderId price s;
             s2 = executeOrder up' fails orderId price' s1
         in s2 = s1
            \<and> map_option o_status (getOrder s1 orderId) = Some ''EXECUTED''
            \<and> (\<exists>t. trades s2 = trades s @ [t] \<and> t_orderId t = o_id ord
                     \<and> t_quantity t = o_quantity ord \<and> t_tradeType t = o_orderType ord)
            \<and> length (filter (\<lambda>t. t_orderId t = orderId) (trades s2)) =
                length (filter (\<lambda>t. t_orderId t = orderId) (trades s)) + 1"
    unfolding Let_def s1_def[symmetric] noop
    using st tr oid by simp
qed

text \<open>
  The theorem at a pending BUY of 10 at limit 2500.00, settled twice at 2400, and at
  the same order already EXECUTED.
\<close>

theorem settle_idempotent_witness:
  "getOrder (demoStore [demoOrder ''BUY'' 10 250000 ''PENDING''] []) 1
     = Some (demoOrder ''BUY'' 10 250000 ''PENDING'')
   \<and> o_status (demoOrder ''BUY'' 10 250000 ''PENDING'') = ''PENDING''
   \<and> executeOrder halfAway reliable 1 2400
        (executeOrder halfAway reliable 1 2400
           (demoStore [demoOrder ''BUY'' 10 250000 ''PENDING''] []))
      = executeOrder halfAway reliable 1 2400
          (demoStore [demoOrder ''BUY'' 10 250000 ''PENDING''] [])
   \<and> length (trades (executeOrder halfAway reliable 1 2400
        (executeOrder halfAway reliable 1 2400
           (demoStore [demoOrder ''BUY'' 10 250000 ''PENDING''] [])))) = 1
   \<and> getOrder (demoStore [demoOrder ''BUY'' 10 250000 ''EXECUTED''] []) 1
     = Some (demoOrder ''BUY'' 10 250000 ''EXECUTED'')
   \<and> executeOrder halfAway reliable 1 2400
        (demoStore [demoOrder ''BUY'' 10 250000 ''EXECUTED''] [])
      = demoStore [demoOrder ''BUY'' 10 250000 ''EXECUTED''] []"
proof -
  let ?p = "demoOrder ''BUY'' 10 250000 ''PENDING''"
  let ?e = "demoOrder ''BUY'' 10 250000 ''EXECUTED''"
  have h: "getOrder (demoStore [?p] []) 1 = Some ?p \<and> o_status ?p = ''PENDING''"
    by (simp add: getOrder_def demo_defs)
  have h2: "getOrder (demoStore [?e] []) 1 = Some ?e \<and> o_status ?e \<noteq> ''PENDING''"
    by (simp add: getOrder_def demo_defs)
  have t0: "trades (demoStore [?p] []) = []"
    by (simp add: demoStore_def)
  note A = settle_idempotent[where s = "demoStore [?p] []" and orderId = 1 and ord = ?p
        and fails = reliable and price = 2400 and price' = 2400 and up = halfAway
        and up' = halfAway]
  note B = settle_idempotent[where s = "demoStore [?e] []" and orderId = 1 and ord = ?e
        and fails = reliable and price = 2400 and price' = 2400 and up = halfAway
        and up' = halfAway]
  have a: "executeOrder halfAway reliable 1 2400
             (executeOrder halfAway reliable 1 2400 (demoStore [?p] []))
           = executeOrder halfAway reliable 1 2400 (demoStore [?p] [])"
    and b: "\<exists>t. trades (executeOrder halfAway reliable 1 2400
             (executeOrder halfAway reliable 1 2400 (demoStore [?p] []))) = [] @ [t]"
    using A h unfolding Let_def t0 by blast+
  have c: "executeOrder halfAway reliable 1 2400 (demoStore [?e] []) = demoStore [?e] []"
    using B h2 by blast
  from b have b': "length (trades (executeOrder halfAway reliable 1 2400
             (executeOrder halfAway reliable 1 2400 (demoStore [?p] [])))) = 1"
    by auto
  show ?thesis using h h2 a b' c by blast
qed

section \<open>Failing store calls during settlement\<close>




section \<open>The balance update\<close>




section \<open>A BUY onto an open position\<close>




section \<open>A SELL against an open position\<close>

text \<open>
  C5.  When a pending SELL is settled (no store call failing) against an open position,
  the new quantity is old - order quantity.  If it is at most 0 the position's row is
  deleted, however large the order (nothing compares it with the quantity held);
  otherwise the position keeps its average price and gets the new quantity, and its
  current value becomes new quantity \<times> average price.  In both cases one trade is
  recorded with total value quantity \<times> price rounded to two decimals.
\<close>

theorem sell_existing_position:
  assumes "getOrder s orderId = Some ord" and "o_status ord = ''PENDING''"
    and "o_orderType ord = ''SELL''"
    and "getPosition s (o_userId ord) (o_symbol ord) (o_exchange ord) = Some ep"
  shows "let s' = executeOrder up reliable orderId price s;
             newQuantity = p_quantity ep - o_quantity ord
         in (newQuantity \<le> 0 \<longrightarrow>
               positions s' = filter (\<lambda>p. p_id p \<noteq> p_id ep) (positions s))
          \<and> (0 < newQuantity \<longrightarrow>
               (\<exists>currentValue.
                  toFixed2D up (js_times (of_int newQuantity) (parseFloatD (p_averagePrice ep)))
                    = Some currentValue
                  \<and> getPosition s' (o_userId ord) (o_symbol ord) (o_exchange ord) =
                      Some (ep\<lparr>p_quantity := newQuantity,
                               p_currentValue := currentValue,
                               p_updatedAt := clock s\<rparr>))
               \<and> (\<forall>a. p_averagePrice ep = Decimal a \<longrightarrow>
                    getPosition s' (o_userId ord) (o_symbol ord) (o_exchange ord) =
                      Some (ep\<lparr>p_quantity := newQuantity,
                               p_currentValue := Decimal (newQuantity * a),
                               p_updatedAt := clock s\<rparr>)))
          \<and> trades s' = trades s @
                 [\<lparr>t_id = nextTradeId s, t_userId = o_userId ord, t_orderId = o_id ord,
                   t_symbol = o_symbol ord, t_exchange = o_exchange ord,
                   t_tradeType = ''SELL'', t_quantity = o_quantity ord,
                   t_price = toFixed2 up price,
                   t_totalValue = toFixed2 up (of_int (o_quantity ord) * price),
                   t_executedAt = clock s\<rparr>]"
proof -
  define nq where "nq = p_quantity ep - o_quantity ord"
  define s2 where "s2 = createTrade (o_id ord) (o_symbol ord) (o_exchange ord) (o_orderType ord)
                 (o_quantity ord) (toFixed2 up price)
                 (toFixed2 up (of_int (o_quantity ord) * price))
                 (o_userId ord) (updateOrderStatus up orderId ''EXECUTED'' (Some price) s)"
  have r: "\<not> reliable GetOrder" "\<not> reliable UpdateOrderStatus" "\<not> reliable CreateTrade"
    by (simp_all add: reliable_def)
  have tr: "trades (executeOrder up reliable orderId price s) = trades s @
                 [\<lparr>t_id = nextTradeId s, t_userId = o_userId ord, t_orderId = o_id ord,
                   t_symbol = o_symbol ord, t_exchange = o_exchange ord,
                   t_tradeType = ''SELL'', t_quantity = o_quantity ord,
                   t_price = toFixed2 up price,
                   t_totalValue = toFixed2 up (of_int (o_quantity ord) * price),
                   t_executedAt = clock s\<rparr>]"
    using executeOrder_trades[OF assms(1,2) r, of up price] assms(3) by simp
  have del: "nq \<le> 0 \<Longrightarrow>
      positions (executeOrder up reliable orderId price s) =
        filter (\<lambda>p. p_id p \<noteq> p_id ep) (positions s)"
    unfolding nq_def
    by (simp add: executeOrder_sell_existing[OF assms] deletePosition_def Let_def)
  have g2: "getPosition s2 = getPosition s" "clock s2 = clock s"
    by (simp_all add: s2_def)
  obtain cv where cv: "toFixed2D up (js_times (of_int nq) (parseFloatD (p_averagePrice ep)))
                         = Some cv"
    using js_times_parseFloatD_not_Infinite[of "of_int nq" "p_averagePrice ep"]
    by (cases "js_times (of_int nq) (parseFloatD (p_averagePrice ep))") simp_all
  obtain s3 where s3: "updatePosition up (p_id ep) nq (parseFloatD (p_averagePrice ep)) s2
                         = Some s3"
    using updatePosition_Some[OF parseFloatD_not_Infinite] by blast
  have p3: "getPosition s3 (o_userId ord) (o_symbol ord) (o_exchange ord) =
      Some (ep\<lparr>p_quantity := nq, p_currentValue := cv, p_updatedAt := clock s\<rparr>)"
    using assms(4)
    by (simp add: getPosition_updatePosition[OF s3] g2 toFixed2D_parseFloatD cv)
  have upd: "0 < nq \<Longrightarrow>
      getPosition (executeOrder up reliable orderId price s)
        (o_userId ord) (o_symbol ord) (o_exchange ord) =
      Some (ep\<lparr>p_quantity := nq, p_currentValue := cv, p_updatedAt := clock s\<rparr>)"
    using p3 s3
    by (simp add: executeOrder_sell_existing[OF assms] Let_def s2_def[symmetric]
          nq_def[symmetric])
  have fin: "p_averagePrice ep = Decimal a \<Longrightarrow> cv = Decimal (nq * a)" for a
    using cv by (simp add: toFixed2_times_exact)
  show ?thesis
    unfolding Let_def nq_def[symmetric] using tr del upd cv fin by auto
qed

text \<open>
  The theorem at a position of 10 at 100.00: a SELL of 10 settled at 130 deletes it and
  records a trade of total value 1300.00; a SELL of 4 leaves 6 at 100.00.
\<close>

theorem sell_existing_position_witness:
  "getOrder (demoStore [demoOrder ''SELL'' 10 12000 ''PENDING''] [demoPosition 10 10000]) 1
     = Some (demoOrder ''SELL'' 10 12000 ''PENDING'')
   \<and> getPosition (demoStore [demoOrder ''SELL'' 10 12000 ''PENDING''] [demoPosition 10 10000])
        1 ''RELIANCE'' ''NSE'' = Some (demoPosition 10 10000)
   \<and> positions (executeOrder halfAway reliable 1 (parseFloat 13000)
         (demoStore [demoOrder ''SELL'' 10 12000 ''PENDING''] [demoPosition 10 10000])) = []
   \<and> map t_totalValue (trades (executeOrder halfAway reliable 1 (parseFloat 13000)
         (demoStore [demoOrder ''SELL'' 10 12000 ''PENDING''] [demoPosition 10 10000])))
      = [130000]
   \<and> getPosition (executeOrder halfAway reliable 1 (parseFloat 13000)
         (demoStore [demoOrder ''SELL'' 4 12000 ''PENDING''] [demoPosition 10 10000]))
        1 ''RELIANCE'' ''NSE''
      = Some ((demoPosition 6 10000)\<lparr>p_updatedAt := 7\<rparr>)"
proof -
  let ?o = "demoOrder ''SELL'' 10 12000 ''PENDING''"
  let ?o' = "demoOrder ''SELL'' 4 12000 ''PENDING''"
  let ?p = "demoPosition 10 10000"
  let ?s = "demoStore [?o] [?p]"
  let ?s' = "demoStore [?o'] [?p]"
  have h1: "getOrder ?s 1 = Some ?o" "getOrder ?s' 1 = Some ?o'"
    by (simp_all add: getOrder_def demo_defs)
  have h2: "o_status ?o = ''PENDING''" "o_status ?o' = ''PENDING''"
    by (simp_all add: demo_defs)
  have h3: "o_orderType ?o = ''SELL''" "o_orderType ?o' = ''SELL''"
    by (simp_all add: demo_defs)
  have h4: "getPosition ?s (o_userId ?o) (o_symbol ?o) (o_exchange ?o) = Some ?p"
    "getPosition ?s' (o_userId ?o') (o_symbol ?o') (o_exchange ?o') = Some ?p"
    by (simp_all add: getPosition_def demo_defs)
  have h5: "getPosition ?s 1 ''RELIANCE'' ''NSE'' = Some ?p"
    by (simp add: getPosition_def demo_defs)
  have f: "o_quantity ?o = 10" "o_quantity ?o' = 4" "p_quantity ?p = 10" "p_id ?p = 1"
    "positions ?s = [?p]" "trades ?s = []" "p_averagePrice ?p = Decimal 10000"
    "clock ?s' = 7" "o_userId ?o' = 1" "o_symbol ?o' = ''RELIANCE''" "o_exchange ?o' = ''NSE''"
    by (simp_all add: demo_defs)
  have t: "toFixed2 halfAway (of_int 10 * parseFloat 13000) = 130000"
    using toFixed2_times_exact[of halfAway 10 13000] by simp
  have e: "?p\<lparr>p_quantity := 6, p_currentValue := Decimal (6 * 10000), p_updatedAt := 7\<rparr>
           = (demoPosition 6 10000)\<lparr>p_updatedAt := 7\<rparr>"
    by (simp add: demo_defs)
  note A = sell_existing_position[OF h1(1) h2(1) h3(1) h4(1), of halfAway "parseFloat 13000",
             unfolded Let_def f t]
  note B = sell_existing_position[OF h1(2) h2(2) h3(2) h4(2), of halfAway "parseFloat 13000",
             unfolded Let_def f]
  have a: "positions (executeOrder halfAway reliable 1 (parseFloat 13000) ?s) = []"
    using A by (simp add: f)
  have b: "map t_totalValue (trades (executeOrder halfAway reliable 1 (parseFloat 13000) ?s))
           = [130000]"
    using A by (simp add: f)
  have c: "getPosition (executeOrder halfAway reliable 1 (parseFloat 13000) ?s')
             1 ''RELIANCE'' ''NSE'' = Some ((demoPosition 6 10000)\<lparr>p_updatedAt := 7\<rparr>)"
    using B e toFixed2_times_exact[of halfAway 6 10000] by (simp add: f)
  show ?thesis using h1(1) h5 a b c by blast
qed

section \<open>Cancelling\<close>

text \<open>
  The claim that cancelling touches PENDING orders only fails on an EXECUTED order: both
  \<open>cancelOrder\<close>s turn it into a CANCELLED one.
\<close>

theorem cancel_counterexample:
  "getOrder (demoStore [demoOrder ''BUY'' 10 250000 ''EXECUTED''] []) 1
     = Some (demoOrder ''BUY'' 10 250000 ''EXECUTED'')
   \<and> getOrder (cancelOrder 1 (demoStore [demoOrder ''BUY'' 10 250000 ''EXECUTED''] [])) 1
     = Some (demoOrder ''BUY'' 10 250000 ''CANCELLED'')
   \<and> cancelOrder 1 (demoStore [demoOrder ''BUY'' 10 250000 ''EXECUTED''] [])
     \<noteq> demoStore [demoOrder ''BUY'' 10 250000 ''EXECUTED''] []
   \<and> MemStorage_cancelOrder [1 \<mapsto> demoOrder ''BUY'' 10 250000 ''EXECUTED''] 1 1
     = Some (demoOrder ''BUY'' 10 250000 ''CANCELLED'')"
  by (simp add: cancelOrder_def getOrder_def MemStorage_cancelOrder_def demo_defs)

text \<open>
  C6, as amended.  \<open>cancelOrder\<close>, in the database and in the in-memory store, sets
  the status of the order with the given id to CANCELLED whatever its status was, and
  changes nothing when there is no such order.  An order that is not PENDING is never
  PENDING again after a cancel (of any id), and a settlement (of any id, at any price,
  whichever store calls fail) leaves it exactly as it is; so an order leaves PENDING at
  most once.  A CANCELLED order is left as it is by every cancel and every settlement.
\<close>

theorem cancel_any_status:
  "(getOrder s orderId = Some ord \<longrightarrow>
      getOrder (cancelOrder orderId s) orderId = Some (ord\<lparr>o_status := ''CANCELLED''\<rparr>))
   \<and> (getOrder s orderId = None \<longrightarrow> cancelOrder orderId s = s)
   \<and> (m orderId = Some ord \<longrightarrow>
      MemStorage_cancelOrder m orderId = m(orderId \<mapsto> ord\<lparr>o_status := ''CANCELLED''\<rparr>))
   \<and> (m orderId = None \<longrightarrow> MemStorage_cancelOrder m orderId = m)
   \<and> (getOrder s ident = Some ord' \<and> o_status ord' \<noteq> ''PENDING'' \<longrightarrow>
        map_option o_status (getOrder (cancelOrder orderId s) ident) \<noteq> Some ''PENDING''
        \<and> getOrder (executeOrder up fails orderId price s) ident = Some ord')
   \<and> (getOrder s ident = Some ord' \<and> o_status ord' = ''CANCELLED'' \<longrightarrow>
        getOrder (cancelOrder orderId s) ident = Some ord')"
proof (intro conjI impI)
  assume "getOrder s orderId = Some ord"
  then show "getOrder (cancelOrder orderId s) orderId = Some (ord\<lparr>o_status := ''CANCELLED''\<rparr>)"
    using getOrder_id[of s orderId ord] by (simp add: getOrder_cancelOrder)
next
  assume "getOrder s orderId = None"
  then have "\<forall>x \<in> set (orders s). o_id x \<noteq> orderId"
    by (auto simp: getOrder_def find_None_iff)
  then have "map (\<lambda>ord. if o_id ord = orderId then ord\<lparr>o_status := ''CANCELLED''\<rparr> else ord)
               (orders s) = orders s"
    by (induction "orders s") (auto simp: map_idI)
  then show "cancelOrder orderId s = s" by (simp add: cancelOrder_def)
next
  assume "m orderId = Some ord"
  then show "MemStorage_cancelOrder m orderId = m(orderId \<mapsto> ord\<lparr>o_status := ''CANCELLED''\<rparr>)"
    by (simp add: MemStorage_cancelOrder_def)
next
  assume "m orderId = None"
  then show "MemStorage_cancelOrder m orderId = m" by (simp add: MemStorage_cancelOrder_def)
next
  assume "getOrder s ident = Some ord' \<and> o_status ord' \<noteq> ''PENDING''"
  then show "map_option o_status (getOrder (cancelOrder orderId s) ident) \<noteq> Some ''PENDING''"
    by (simp add: getOrder_cancelOrder)
next
  assume "getOrder s ident = Some ord' \<and> o_status ord' \<noteq> ''PENDING''"
  then show "getOrder (executeOrder up fails orderId price s) ident = Some ord'"
    by (simp add: executeOrder_keeps_settled)
next
  assume "getOrder s ident = Some ord' \<and> o_status ord' = ''CANCELLED''"
  then show "getOrder (cancelOrder orderId s) ident = Some ord'"
    by (auto simp add: getOrder_cancelOrder)
qed

text \<open>
  The theorem at a pending order (cancelled, in both stores), at a cancelled order
  (cancelled and settled again) and at an id with no order.
\<close>

theorem cancel_any_status_witness:
  "getOrder (demoStore [demoOrder ''BUY'' 10 250000 ''PENDING''] []) 1
     = Some (demoOrder ''BUY'' 10 250000 ''PENDING'')
   \<and> getOrder (cancelOrder 1 (demoStore [demoOrder ''BUY'' 10 250000 ''PENDING''] [])) 1
     = Some (demoOrder ''BUY'' 10 250000 ''CANCELLED'')
   \<and> MemStorage_cancelOrder [1 \<mapsto> demoOrder ''BUY'' 10 250000 ''PENDING''] 1
     = [1 \<mapsto> demoOrder ''BUY'' 10 250000 ''CANCELLED'']
   \<and> MemStorage_cancelOrder [1 \<mapsto> demoOrder ''BUY'' 10 250000 ''PENDING''] 2
     = [1 \<mapsto> demoOrder ''BUY'' 10 250000 ''PENDING'']
   \<and> getOrder (demoStore [demoOrder ''BUY'' 10 250000 ''CANCELLED''] []) 1
     = Some (demoOrder ''BUY'' 10 250000 ''CANCELLED'')
   \<and> getOrder (cancelOrder 1 (demoStore [demoOrder ''BUY'' 10 250000 ''CANCELLED''] [])) 1
     = Some (demoOrder ''BUY'' 10 250000 ''CANCELLED'')
   \<and> getOrder (executeOrder halfAway reliable 1 2400
         (demoStore [demoOrder ''BUY'' 10 250000 ''CANCELLED''] [])) 1
     = Some (demoOrder ''BUY'' 10 250000 ''CANCELLED'')
   \<and> getOrder (demoStore [demoOrder ''BUY'' 10 250000 ''PENDING''] []) 2 = None
   \<and> cancelOrder 2 (demoStore [demoOrder ''BUY'' 10 250000 ''PENDING''] [])
     = demoStore [demoOrder ''BUY'' 10 250000 ''PENDING''] []"
proof -
  let ?p = "demoOrder ''BUY'' 10 250000 ''PENDING''"
  let ?c = "demoOrder ''BUY'' 10 250000 ''CANCELLED''"
  let ?m = "[(1::int) \<mapsto> ?p]"
  have h1: "getOrder (demoStore [?p] []) 1 = Some ?p" by (simp add: getOrder_def demo_defs)
  have h2: "getOrder (demoStore [?c] []) 1 = Some ?c" by (simp add: getOrder_def demo_defs)
  have h3: "o_status ?c = ''CANCELLED''" "o_status ?c \<noteq> ''PENDING''"
    by (simp_all add: demo_defs)
  have h4: "getOrder (demoStore [?p] []) 2 = None" by (simp add: getOrder_def demo_defs)
  have h5: "?m 1 = Some ?p" "?m 2 = None" by simp_all
  have e: "?p\<lparr>o_status := ''CANCELLED''\<rparr> = ?c" by (simp add: demo_defs)
  have u: "?m(1 \<mapsto> ?c) = [(1::int) \<mapsto> ?c]" by simp
  note P = cancel_any_status[where s = "demoStore [?p] []" and orderId = 1 and ord = ?p
            and m = ?m and ident = 1 and ord' = ?p and fails = reliable and price = 2400
            and up = halfAway]
  note C = cancel_any_status[where s = "demoStore [?c] []" and orderId = 1 and ord = ?c
            and m = ?m and ident = 1 and ord' = ?c and fails = reliable and price = 2400
            and up = halfAway]
  note N = cancel_any_status[where s = "demoStore [?p] []" and orderId = 2 and ord = ?p
            and m = ?m and ident = 1 and ord' = ?p and fails = reliable and price = 2400
            and up = halfAway]
  have a: "getOrder (cancelOrder 1 (demoStore [?p] [])) 1 = Some ?c"
    using P h1 unfolding e by blast
  have a': "MemStorage_cancelOrder ?m 1 = ?m(1 \<mapsto> ?c)"
    using P h5(1) unfolding e by blast
  have a'': "MemStorage_cancelOrder ?m 2 = ?m"
    using N h5(2) by blast
  have b: "getOrder (cancelOrder 1 (demoStore [?c] [])) 1 = Some ?c"
    using C h2 h3 by blast
  have c: "getOrder (executeOrder halfAway reliable 1 2400 (demoStore [?c] [])) 1 = Some ?c"
    using C h2 h3 by blast
  have d: "cancelOrder 2 (demoStore [?p] []) = demoStore [?p] []"
    using N h4 by blast
  show ?thesis
    using h1 h2 h4 a a'[unfolded u] a'' b c d by blast
qed

section \<open>The execution condition\<close>



section \<open>Validation of an order request\<close>




section \<open>Creating an order\<close>



section \<open>A SELL with no open position\<close>

text \<open>
  C10.  When a pending SELL order is settled (no store call failing) while its user has
  no position in its symbol and exchange, the order becomes EXECUTED and one trade is
  recorded for it, but the users table, so every balance, and the positions table are
  exactly as before: the credit sits in the branch that requires an existing position.
\<close>

theorem sell_without_position:
  assumes "getOrder s orderId = Some ord" and "o_status ord = ''PENDING''"
    and "o_orderType ord = ''SELL''"
    and "getPosition s (o_userId ord) (o_symbol ord) (o_exchange ord) = None"
  shows "let s' = executeOrder up reliable orderId price s
         in map_option o_status (getOrder s' orderId) = Some ''EXECUTED''
            \<and> trades s' = trades s @
                 [\<lparr>t_id = nextTradeId s, t_userId = o_userId ord, t_orderId = o_id ord,
                   t_symbol = o_symbol ord, t_exchange = o_exchange ord,
                   t_tradeType = ''SELL'', t_quantity = o_quantity ord,
                   t_price = toFixed2 up price,
                   t_totalValue = toFixed2 up (of_int (o_quantity ord) * price),
                   t_executedAt = clock s\<rparr>]
            \<and> users s' = users s
            \<and> positions s' = positions s"
proof -
  have r: "\<not> reliable GetOrder" "\<not> reliable UpdateOrderStatus" "\<not> reliable CreateTrade"
    by (simp_all add: reliable_def)
  have "users (executeOrder up reliable orderId price s) = users s"
    and "positions (executeOrder up reliable orderId price s) = positions s"
    using assms by (simp_all add: executeOrder_def reliable_def Let_def)
  then show ?thesis
    using executeOrder_status[OF assms(1,2) r(1,2), of up price]
      executeOrder_trades[OF assms(1,2) r, of up price] assms(3)
    by (simp add: Let_def)
qed

text \<open>
The theorem at a pending SELL of 10, settled at 2500 with no position open.
\<close>

theorem sell_without_position_witness:
  "getOrder (demoStore [demoOrder ''SELL'' 10 200000 ''PENDING''] []) 1
     = Some (demoOrder ''SELL'' 10 200000 ''PENDING'')
   \<and> getPosition (demoStore [demoOrder ''SELL'' 10 200000 ''PENDING''] []) 1
        ''RELIANCE'' ''NSE'' = None
   \<and> map_option o_status
        (getOrder (executeOrder halfAway reliable 1 (parseFloat 250000)
           (demoStore [demoOrder ''SELL'' 10 200000 ''PENDING''] [])) 1) = Some ''EXECUTED''
   \<and> map t_totalValue (trades (executeOrder halfAway reliable 1 (parseFloat 250000)
           (demoStore [demoOrder ''SELL'' 10 200000 ''PENDING''] []))) = [2500000]
   \<and> users (executeOrder halfAway reliable 1 (parseFloat 250000)
           (demoStore [demoOrder ''SELL'' 10 200000 ''PENDING''] [])) = [demoUser]
   \<and> positions (executeOrder halfAway reliable 1 (parseFloat 250000)
           (demoStore [demoOrder ''SELL'' 10 200000 ''PENDING''] [])) = []"
proof -
  let ?o = "demoOrder ''SELL'' 10 200000 ''PENDING''"
  let ?s = "demoStore [?o] []"
  have h1: "getOrder ?s 1 = Some ?o" by (simp add: getOrder_def demo_defs)
  have h2: "o_status ?o = ''PENDING''" by (simp add: demo_defs)
  have h3: "o_orderType ?o = ''SELL''" by (simp add: demo_defs)
  have h4: "getPosition ?s (o_userId ?o) (o_symbol ?o) (o_exchange ?o) = None"
    by (simp add: getPosition_def demo_defs)
  have h5: "getPosition ?s 1 ''RELIANCE'' ''NSE'' = None"
    by (simp add: getPosition_def demo_defs)
  have f: "o_quantity ?o = 10" "trades ?s = []" "users ?s = [demoUser]" "positions ?s = []"
    by (simp_all add: demo_defs)
  have t: "toFixed2 halfAway (of_int 10 * parseFloat 250000) = 2500000"
    using toFixed2_times_exact[of halfAway 10 250000] by simp
  show ?thesis
    using sell_without_position[OF h1 h2 h3 h4, of halfAway "parseFloat 250000"] h1 h5
    unfolding Let_def f t by simp
qed

end
